theory Spec2Isabelle
  imports Complex_Main "HOL-Library.Word" "HOL-Library.Signed_Division"
begin

unbundle bit_operations_syntax

section \<open>Go values: machine integers, slices and panics\<close>

type_synonym byte = "8 word"
type_synonym uint8 = "8 word"
type_synonym uint16 = "16 word"
type_synonym uint32 = "32 word"
type_synonym uint = "64 word"
type_synonym int64 = "64 word"

text \<open>
  A run-time panic of Go is a value of its own: an index outside \<open>0 \<le> i < len(b)\<close>,
  or a slice expression \<open>b[lo:hi]\<close> outside \<open>0 \<le> lo \<le> hi \<le> cap(b)\<close>.
\<close>

datatype panic = IndexOutOfRange | SliceBoundsOutOfRange

text \<open>
  The errors the package returns: both constructors of \<open>Timestamp\<close> and \<open>Short\<close> format
  the message "Timestamp overflow: ..." and \<open>Msg.Unpack\<close> formats
  "not enough data following header: %d bytes" with the value of \<open>remain\<close>.
\<close>

datatype error = TimestampOverflow | NotEnoughData int

text \<open>
  A slice is a window on a backing array: \<open>off\<close> is where it starts in the array,
  \<open>slen\<close> is \<open>len(b)\<close> and \<open>scap\<close> is \<open>cap(b)\<close>. The array itself is passed beside
  it, and every function that writes returns the array it has written, so that a write
  through a sub-slice is seen through the slice it was cut from.
\<close>

type_synonym mem = "byte list"

record slice =
  off :: nat
  slen :: nat
  scap :: nat

definition wf_slice :: "mem \<Rightarrow> slice \<Rightarrow> bool" where
  "wf_slice m b = (slen b \<le> scap b \<and> off b + scap b \<le> length m)"

definition bytes :: "mem \<Rightarrow> slice \<Rightarrow> byte list" where
  "bytes m b = take (slen b) (drop (off b) m)"

text \<open>The slice on the whole of an array, as \<open>make([]byte, n)\<close> returns it.\<close>

definition whole :: "mem \<Rightarrow> slice" where
  "whole m = \<lparr>off = 0, slen = length m, scap = length m\<rparr>"

fun bnd :: "'e + 'a \<Rightarrow> ('a \<Rightarrow> 'e + 'b) \<Rightarrow> 'e + 'b" where
  "bnd (Inl e) f = Inl e"
| "bnd (Inr x) f = f x"

definition index :: "mem \<Rightarrow> slice \<Rightarrow> int \<Rightarrow> panic + byte" where
  "index m b i =
     (if 0 \<le> i \<and> i < int (slen b) then Inr (m ! (off b + nat i)) else Inl IndexOutOfRange)"

definition store :: "mem \<Rightarrow> slice \<Rightarrow> int \<Rightarrow> byte \<Rightarrow> panic + mem" where
  "store m b i v =
     (if 0 \<le> i \<and> i < int (slen b) then Inr (m[off b + nat i := v]) else Inl IndexOutOfRange)"

definition reslice :: "slice \<Rightarrow> int \<Rightarrow> int \<Rightarrow> panic + slice" where
  "reslice b lo hi =
     (if 0 \<le> lo \<and> lo \<le> hi \<and> hi \<le> int (scap b)
      then Inr \<lparr>off = off b + nat lo, slen = nat (hi - lo), scap = scap b - nat lo\<rparr>
      else Inl SliceBoundsOutOfRange)"

text \<open>
  Go's \<open>/\<close> and \<open>%\<close> on \<open>int64\<close> truncate towards zero; the result is stored in 64 bits.
\<close>

definition sdiv64 :: "int64 \<Rightarrow> int64 \<Rightarrow> int64" where
  "sdiv64 a b = word_of_int (sint a sdiv sint b)"

definition smod64 :: "int64 \<Rightarrow> int64 \<Rightarrow> int64" where
  "smod64 a b = word_of_int (sint a smod sint b)"

section \<open>The fixed-point formats\<close>

record Short =
  Seconds :: uint16
  Fraction :: uint16

record Timestamp =
  Seconds :: uint32
  Fraction :: uint32

definition packShort :: "Short \<Rightarrow> mem \<Rightarrow> slice \<Rightarrow> panic + mem" where
  "packShort st m b =
     bnd (store m b 0 (ucast (drop_bit 8 (Short.Seconds st)))) (\<lambda>m.
     bnd (store m b 1 (ucast (Short.Seconds st AND 0xff))) (\<lambda>m.
     bnd (store m b 2 (ucast (drop_bit 8 (Short.Fraction st)))) (\<lambda>m.
     store m b 3 (ucast (Short.Fraction st AND 0xff)))))"

definition unpackShort :: "mem \<Rightarrow> slice \<Rightarrow> panic + Short" where
  "unpackShort m b =
     bnd (index m b 0) (\<lambda>b0.
     bnd (index m b 1) (\<lambda>b1.
     bnd (index m b 2) (\<lambda>b2.
     bnd (index m b 3) (\<lambda>b3.
     Inr \<lparr>Short.Seconds = push_bit 8 (ucast b0) OR ucast b1,
          Short.Fraction = push_bit 8 (ucast b2) OR ucast b3\<rparr>))))"

definition packTimestamp :: "Timestamp \<Rightarrow> mem \<Rightarrow> slice \<Rightarrow> panic + mem" where
  "packTimestamp st m b =
     bnd (store m b 0 (ucast (drop_bit 24 (Timestamp.Seconds st)))) (\<lambda>m.
     bnd (store m b 1 (ucast (drop_bit 16 (Timestamp.Seconds st) AND 0xff))) (\<lambda>m.
     bnd (store m b 2 (ucast (drop_bit 8 (Timestamp.Seconds st) AND 0xff))) (\<lambda>m.
     bnd (store m b 3 (ucast (Timestamp.Seconds st AND 0xff))) (\<lambda>m.
     bnd (store m b 4 (ucast (drop_bit 24 (Timestamp.Fraction st)))) (\<lambda>m.
     bnd (store m b 5 (ucast (drop_bit 16 (Timestamp.Fraction st) AND 0xff))) (\<lambda>m.
     bnd (store m b 6 (ucast (drop_bit 8 (Timestamp.Fraction st) AND 0xff))) (\<lambda>m.
     store m b 7 (ucast (Timestamp.Fraction st AND 0xff)))))))))"

definition unpackTimestamp :: "mem \<Rightarrow> slice \<Rightarrow> panic + Timestamp" where
  "unpackTimestamp m b =
     bnd (index m b 0) (\<lambda>b0.
     bnd (index m b 1) (\<lambda>b1.
     bnd (index m b 2) (\<lambda>b2.
     bnd (index m b 3) (\<lambda>b3.
     bnd (index m b 4) (\<lambda>b4.
     bnd (index m b 5) (\<lambda>b5.
     bnd (index m b 6) (\<lambda>b6.
     bnd (index m b 7) (\<lambda>b7.
     Inr \<lparr>Timestamp.Seconds =
            push_bit 24 (ucast b0) OR push_bit 16 (ucast b1) OR push_bit 8 (ucast b2) OR ucast b3,
          Timestamp.Fraction =
            push_bit 24 (ucast b4) OR push_bit 16 (ucast b5) OR push_bit 8 (ucast b6) OR ucast b7\<rparr>
     ))))))))"

section \<open>Constructing the fixed-point values\<close>

text \<open>
  \<open>time.Duration\<close> is an \<open>int64\<close> count of nanoseconds, and \<open>d.Nanoseconds()\<close> is that
  count. \<open>NewShortFromDuration\<close> returns the pair \<open>(Short, error)\<close>; \<open>None\<close> is \<open>nil\<close>.
\<close>

definition NewShortFromDuration :: "int64 \<Rightarrow> Short \<times> error option" where
  "NewShortFromDuration d =
     (let sh = \<lparr>Short.Seconds = 0, Short.Fraction = 0\<rparr>;
          s = sdiv64 d 1000000000
      in if 0xffff <s s \<or> s <s - 0xffff then (sh, Some TimestampOverflow)
         else (\<lparr>Short.Seconds = ucast s,
                Short.Fraction = ucast (sdiv64 (push_bit 16 (smod64 d 1000000000)) 1000000000)\<rparr>,
               None))"

text \<open>
  A \<open>time.Time\<close> is taken as the exact count of nanoseconds between it and \<open>NTPEpoch\<close>
  (an unbounded integer: the range of \<open>time.Time\<close> is far wider than that of a
  \<open>Duration\<close>). \<open>t.Sub(NTPEpoch)\<close> is documented to return the largest (smallest)
  \<open>Duration\<close> when the difference does not fit in one.
\<close>

definition Sub_NTPEpoch :: "int \<Rightarrow> int64" where
  "Sub_NTPEpoch t =
     (if 2 ^ 63 - 1 < t then word_of_int (2 ^ 63 - 1)
      else if t < - (2 ^ 63) then word_of_int (- (2 ^ 63))
      else word_of_int t)"

text \<open>
  The two low bits come from \<open>rand.New(source).Intn(4)\<close>; the drawn number is the
  parameter \<open>lsb\<close>, which \<open>Intn(4)\<close> keeps in \<open>0 \<le> lsb < 4\<close>.
\<close>

definition NewTimestampFromTime :: "int \<Rightarrow> int \<Rightarrow> Timestamp \<times> error option" where
  "NewTimestampFromTime t lsb =
     (let ts = \<lparr>Timestamp.Seconds = 0, Timestamp.Fraction = 0\<rparr>;
          ns = Sub_NTPEpoch t;
          s = sdiv64 ns 1000000000
      in if 0xffffffff <s s \<or> s <s - 0xffffffff then (ts, Some TimestampOverflow)
         else
           let f = smod64 ns 1000000000;
               ts = ts\<lparr>Timestamp.Seconds := ucast s\<rparr>;
               ts = ts\<lparr>Timestamp.Fraction := ucast (sdiv64 (push_bit 32 f) 1000000000)\<rparr>;
               ts = ts\<lparr>Timestamp.Fraction :=
                       push_bit 2 (drop_bit 2 (Timestamp.Fraction ts)) OR word_of_int lsb\<rparr>
           in (ts, None))"

section \<open>The exponent format\<close>

text \<open>
  \<open>exponent\<close> is an \<open>int8\<close>: eight bits read as two's complement. \<open>Float\<close> shifts the
  \<open>uint\<close> 1 (64 bits) by \<open>uint(e)\<close>, respectively \<open>uint(-e)\<close>: the conversion of an \<open>int8\<close>
  to \<open>uint\<close> extends the sign, and a shift by 64 or more leaves 0. The \<open>uint\<close> it
  converts to \<open>float64\<close> is therefore 0 or a power of two below \<open>2^64\<close>, which
  \<open>float64\<close> holds exactly, as it does the quotient \<open>1 / 2^k\<close>; dividing 1 by the
  \<open>float64\<close> zero gives \<open>+Inf\<close>. These are the only \<open>float64\<close> values \<open>Float\<close> returns.
\<close>

type_synonym exponent = "8 word"

datatype float64 = Finite real | PosInf

definition float64_of_uint :: "uint \<Rightarrow> float64" where
  "float64_of_uint w = Finite (real (unat w))"

definition one_over :: "float64 \<Rightarrow> float64" where
  "one_over x = (case x of Finite r \<Rightarrow> (if r = 0 then PosInf else Finite (1 / r)) | PosInf \<Rightarrow> Finite 0)"

definition Float :: "exponent \<Rightarrow> float64" where
  "Float e =
     (if e <s 0 then one_over (float64_of_uint (push_bit (unat (scast (- e) :: uint)) 1))
      else float64_of_uint (push_bit (unat (scast e :: uint)) 1))"

section \<open>The message header\<close>

definition HeaderSize :: int where
  "HeaderSize = 48"

record MsgHeader =
  Leap :: uint8
  Version :: uint8
  Mode :: uint8
  Stratum :: uint8
  Poll :: exponent
  Precision :: exponent
  RootDelay :: Short
  RootDisp :: Short
  RefID :: "byte list"
  RefTime :: Timestamp
  Org :: Timestamp
  Rec :: Timestamp
  Xmt :: Timestamp
  Dst :: Timestamp

text \<open>
  \<open>Unpack\<close> assigns the fields of its receiver one after the other and returns \<open>nil\<close>;
  the model returns the receiver as it is after the last assignment, and the error.
\<close>

definition MsgHeader_Unpack :: "MsgHeader \<Rightarrow> mem \<Rightarrow> slice \<Rightarrow> panic + MsgHeader \<times> error option"
  where
  "MsgHeader_Unpack mh m b =
     bnd (index m b 0) (\<lambda>x. let mh = mh\<lparr>Leap := drop_bit 6 x\<rparr> in
     bnd (index m b 0) (\<lambda>x. let mh = mh\<lparr>Version := drop_bit 3 x AND 0x7\<rparr> in
     bnd (index m b 0) (\<lambda>x. let mh = mh\<lparr>Mode := x AND 0x7\<rparr> in
     bnd (index m b 1) (\<lambda>x. let mh = mh\<lparr>Stratum := x\<rparr> in
     bnd (index m b 2) (\<lambda>x. let mh = mh\<lparr>Poll := x\<rparr> in
     bnd (index m b 3) (\<lambda>x. let mh = mh\<lparr>Precision := x\<rparr> in
     bnd (reslice b 4 8) (\<lambda>s. bnd (unpackShort m s) (\<lambda>v. let mh = mh\<lparr>RootDelay := v\<rparr> in
     bnd (reslice b 8 12) (\<lambda>s. bnd (unpackShort m s) (\<lambda>v. let mh = mh\<lparr>RootDisp := v\<rparr> in
     bnd (index m b 12) (\<lambda>r0.
     bnd (index m b 13) (\<lambda>r1.
     bnd (index m b 14) (\<lambda>r2.
     bnd (index m b 15) (\<lambda>r3. let mh = mh\<lparr>RefID := [r0, r1, r2, r3]\<rparr> in
     bnd (reslice b 16 24) (\<lambda>s. bnd (unpackTimestamp m s) (\<lambda>v. let mh = mh\<lparr>Org := v\<rparr> in
     bnd (reslice b 24 32) (\<lambda>s. bnd (unpackTimestamp m s) (\<lambda>v. let mh = mh\<lparr>Rec := v\<rparr> in
     bnd (reslice b 32 40) (\<lambda>s. bnd (unpackTimestamp m s) (\<lambda>v. let mh = mh\<lparr>Xmt := v\<rparr> in
     bnd (reslice b 40 48) (\<lambda>s. bnd (unpackTimestamp m s) (\<lambda>v. let mh = mh\<lparr>Dst := v\<rparr> in
     Inr (mh, None)))))))))))))))))))))))"

text \<open>
  \<open>Pack\<close> writes through \<open>buf\<close> and returns \<open>(nil, nil)\<close>: the model returns the array
  as written, the returned slice (\<open>None\<close> is \<open>nil\<close>) and the error.
\<close>

definition MsgHeader_Pack ::
  "MsgHeader \<Rightarrow> mem \<Rightarrow> slice \<Rightarrow> panic + mem \<times> slice option \<times> error option" where
  "MsgHeader_Pack mh m buf =
     bnd (store m buf 0 (push_bit 6 (Leap mh) OR push_bit 3 (Version mh) OR Mode mh)) (\<lambda>m.
     bnd (store m buf 1 (Stratum mh)) (\<lambda>m.
     bnd (store m buf 2 (Poll mh)) (\<lambda>m.
     bnd (store m buf 3 (Precision mh)) (\<lambda>m.
     bnd (reslice buf 4 8) (\<lambda>s. bnd (packShort (RootDelay mh) m s) (\<lambda>m.
     bnd (reslice buf 8 12) (\<lambda>s. bnd (packShort (RootDisp mh) m s) (\<lambda>m.
     Inr (m, None, None)))))))))"

section \<open>Extension fields and the message\<close>

record ExtensionField =
  Type :: byte
  Value :: slice

record Msg =
  Header :: MsgHeader
  ExtensionFields :: "ExtensionField list"
  KeyID :: uint32
  Dgst :: "byte list"

text \<open>
  The loop of \<open>unpackExtensionFields\<close>, with the cursor \<open>i\<close> and the fields appended so
  far. \<open>l\<close> is a byte read as an \<open>int\<close>, so \<open>l % 4\<close> is a remainder of a non-negative number.
\<close>

function unpackExtensionFields_loop ::
  "mem \<Rightarrow> slice \<Rightarrow> int \<Rightarrow> ExtensionField list \<Rightarrow> panic + ExtensionField list" where
  "unpackExtensionFields_loop m b i fs =
     (if i < int (slen b) then
        bnd (index m b i) (\<lambda>t.
        bnd (index m b (i + 1)) (\<lambda>lb.
          let l = uint lb;
              startVal = i + 2;
              endVal = l + startVal
          in bnd (reslice b startVal endVal) (\<lambda>val.
               let padding = 4 - (l mod 4);
                   i = (if padding \<noteq> 0 then i + padding else i);
                   e = \<lparr>Type = t, Value = val\<rparr>
               in unpackExtensionFields_loop m b i (fs @ [e]))))
      else Inr fs)"
  by pat_completeness auto
termination
proof (relation "measure (\<lambda>(m, b, i, fs). nat (int (slen b) - i))")
  show "wf (measure (\<lambda>(m, b, i, fs). nat (int (slen b) - i)))"
    by simp
next
  fix m :: mem and b :: slice and i :: int and fs :: "ExtensionField list"
    and t lb :: byte and l startVal endVal :: int and val :: slice and padding i' :: int
    and e :: ExtensionField
  assume "i < int (slen b)" and l: "l = uint lb" and p: "padding = 4 - l mod 4"
    and i': "i' = (if padding \<noteq> 0 then i + padding else i)"
  have "0 < padding"
    using p pos_mod_bound [of 4 l] by simp
  with \<open>i < int (slen b)\<close> i'
  show "((m, b, i', fs @ [e]), (m, b, i, fs)) \<in> measure (\<lambda>(m, b, i, fs). nat (int (slen b) - i))"
    by simp
qed

definition unpackExtensionFields :: "Msg \<Rightarrow> mem \<Rightarrow> slice \<Rightarrow> panic + Msg \<times> error option" where
  "unpackExtensionFields msg m b =
     bnd (unpackExtensionFields_loop m b 0 (ExtensionFields msg)) (\<lambda>fs.
     Inr (msg\<lparr>ExtensionFields := fs\<rparr>, None))"

text \<open>
  The loop \<open>for i := 15; i >= 0; i-- { m.Dgst[i] = b[end-i-1] }\<close> of \<open>Msg.Unpack\<close>, on
  the 16 bytes of \<open>Dgst\<close>; \<open>e\<close> is the variable \<open>end\<close>.
\<close>

fun Dgst_loop :: "mem \<Rightarrow> slice \<Rightarrow> int \<Rightarrow> nat \<Rightarrow> byte list \<Rightarrow> panic + byte list" where
  "Dgst_loop m b e 0 d = bnd (index m b (e - 0 - 1)) (\<lambda>v. Inr (d[0 := v]))"
| "Dgst_loop m b e (Suc i) d =
     bnd (index m b (e - int (Suc i) - 1)) (\<lambda>v. Dgst_loop m b e i (d[Suc i := v]))"

definition Msg_Unpack :: "Msg \<Rightarrow> mem \<Rightarrow> slice \<Rightarrow> panic + Msg \<times> error option" where
  "Msg_Unpack msg m b =
     bnd (MsgHeader_Unpack (Header msg) m b) (\<lambda>(h, err).
       let msg = msg\<lparr>Header := h\<rparr> in
       case err of
         Some er \<Rightarrow> Inr (msg, Some er)
       | None \<Rightarrow>
           if Version (Header msg) < 4 then Inr (msg, None)
           else
             let e = int (slen b) + 1;
                 remain = e - HeaderSize
             in if 1 < remain then
                  if remain < 4 + int (length (Dgst msg)) + 5
                  then Inr (msg, Some (NotEnoughData remain))
                  else
                    bnd (Dgst_loop m b e 15 (Dgst msg)) (\<lambda>d.
                      let msg = msg\<lparr>Dgst := d\<rparr>;
                          e = e - int (length (Dgst msg))
                      in
                    bnd (index m b (e - 4)) (\<lambda>k0.
                    bnd (index m b (e - 3)) (\<lambda>k1.
                    bnd (index m b (e - 2)) (\<lambda>k2.
                    bnd (index m b (e - 1)) (\<lambda>k3.
                      let msg = msg\<lparr>KeyID := push_bit 24 (ucast k0) OR push_bit 16 (ucast k1)
                                                OR push_bit 8 (ucast k2) OR ucast k3\<rparr>;
                          e = e - 4
                      in
                    bnd (reslice b HeaderSize e) (\<lambda>r.
                    bnd (unpackExtensionFields msg m r) (\<lambda>(msg, _).
                    Inr (msg, None))))))))
                else Inr (msg, None))"

text \<open>The zero values that \<open>Msg{}\<close> and \<open>MsgHeader{}\<close> start from.\<close>

definition zero_Timestamp :: Timestamp where
  "zero_Timestamp = \<lparr>Timestamp.Seconds = 0, Timestamp.Fraction = 0\<rparr>"

definition zero_Short :: Short where
  "zero_Short = \<lparr>Short.Seconds = 0, Short.Fraction = 0\<rparr>"

definition zero_MsgHeader :: MsgHeader where
  "zero_MsgHeader =
     \<lparr>Leap = 0, Version = 0, Mode = 0, Stratum = 0, Poll = 0, Precision = 0,
      RootDelay = zero_Short, RootDisp = zero_Short, RefID = [0, 0, 0, 0],
      RefTime = zero_Timestamp, Org = zero_Timestamp, Rec = zero_Timestamp,
      Xmt = zero_Timestamp, Dst = zero_Timestamp\<rparr>"

definition zero_Msg :: Msg where
  "zero_Msg =
     \<lparr>Header = zero_MsgHeader, ExtensionFields = [], KeyID = 0, Dgst = replicate 16 0\<rparr>"

section \<open>What a slice holds\<close>

text \<open>
  Names for the bytes of the backing array at an offset \<open>j\<close> from a start \<open>k\<close>, and
  for the big-endian values read from and written to them. They are used to state what
  the functions above read and write.
\<close>

definition byte_at :: "mem \<Rightarrow> nat \<Rightarrow> nat \<Rightarrow> byte" where
  "byte_at m k j = m ! (k + j)"

definition set_at :: "mem \<Rightarrow> nat \<Rightarrow> nat \<Rightarrow> byte \<Rightarrow> mem" where
  "set_at m k j v = m[k + j := v]"

definition be16 :: "byte \<Rightarrow> byte \<Rightarrow> uint16" where
  "be16 b0 b1 = push_bit 8 (ucast b0) OR ucast b1"

definition be32 :: "byte \<Rightarrow> byte \<Rightarrow> byte \<Rightarrow> byte \<Rightarrow> uint32" where
  "be32 b0 b1 b2 b3 =
     push_bit 24 (ucast b0) OR push_bit 16 (ucast b1) OR push_bit 8 (ucast b2) OR ucast b3"

definition Short_at :: "mem \<Rightarrow> nat \<Rightarrow> nat \<Rightarrow> Short" where
  "Short_at m k j =
     \<lparr>Short.Seconds = be16 (byte_at m k j) (byte_at m k (j + 1)),
      Short.Fraction = be16 (byte_at m k (j + 2)) (byte_at m k (j + 3))\<rparr>"

definition Timestamp_at :: "mem \<Rightarrow> nat \<Rightarrow> nat \<Rightarrow> Timestamp" where
  "Timestamp_at m k j =
     \<lparr>Timestamp.Seconds =
        be32 (byte_at m k j) (byte_at m k (j + 1)) (byte_at m k (j + 2)) (byte_at m k (j + 3)),
      Timestamp.Fraction =
        be32 (byte_at m k (j + 4)) (byte_at m k (j + 5)) (byte_at m k (j + 6))
          (byte_at m k (j + 7))\<rparr>"

definition put_Short :: "Short \<Rightarrow> mem \<Rightarrow> nat \<Rightarrow> nat \<Rightarrow> mem" where
  "put_Short st m k j =
     set_at (set_at (set_at (set_at m k j (ucast (drop_bit 8 (Short.Seconds st))))
       k (j + 1) (ucast (Short.Seconds st AND 0xff)))
       k (j + 2) (ucast (drop_bit 8 (Short.Fraction st))))
       k (j + 3) (ucast (Short.Fraction st AND 0xff))"

section \<open>Sample inputs\<close>

text \<open>
  A 48-byte header whose byte 0 is \<open>0x23\<close> (Leap 0, Version 4, Mode 3) and whose byte
  \<open>i\<close> is \<open>i\<close> otherwise, the same followed by a 20-byte trailer, the 6-byte
  extension-field region of the specification, and two headers.
\<close>

definition wire48 :: mem where
  "wire48 = [0x23, 0x01, 0x02, 0x03, 0x04, 0x05, 0x06, 0x07,
             0x08, 0x09, 0x0A, 0x0B, 0x0C, 0x0D, 0x0E, 0x0F,
             0x10, 0x11, 0x12, 0x13, 0x14, 0x15, 0x16, 0x17,
             0x18, 0x19, 0x1A, 0x1B, 0x1C, 0x1D, 0x1E, 0x1F,
             0x20, 0x21, 0x22, 0x23, 0x24, 0x25, 0x26, 0x27,
             0x28, 0x29, 0x2A, 0x2B, 0x2C, 0x2D, 0x2E, 0x2F]"

definition trailer20 :: mem where
  "trailer20 = [0x30, 0x31, 0x32, 0x33,
                0x40, 0x41, 0x42, 0x43, 0x44, 0x45, 0x46, 0x47,
                0x48, 0x49, 0x4A, 0x4B, 0x4C, 0x4D, 0x4E, 0x4F]"

definition wire68 :: mem where
  "wire68 = wire48 @ trailer20"

definition region6 :: mem where
  "region6 = [0x01, 0x03, 0xAA, 0xBB, 0xCC, 0x00]"

definition header48 :: MsgHeader where
  "header48 =
     \<lparr>Leap = 0, Version = 4, Mode = 3, Stratum = 1, Poll = 2, Precision = 3,
      RootDelay = \<lparr>Short.Seconds = 0x0405, Short.Fraction = 0x0607\<rparr>,
      RootDisp = \<lparr>Short.Seconds = 0x0809, Short.Fraction = 0x0A0B\<rparr>,
      RefID = [0x0C, 0x0D, 0x0E, 0x0F],
      RefTime = \<lparr>Timestamp.Seconds = 0, Timestamp.Fraction = 0\<rparr>,
      Org = \<lparr>Timestamp.Seconds = 0x10111213, Timestamp.Fraction = 0x14151617\<rparr>,
      Rec = \<lparr>Timestamp.Seconds = 0x18191A1B, Timestamp.Fraction = 0x1C1D1E1F\<rparr>,
      Xmt = \<lparr>Timestamp.Seconds = 0x20212223, Timestamp.Fraction = 0x24252627\<rparr>,
      Dst = \<lparr>Timestamp.Seconds = 0x28292A2B, Timestamp.Fraction = 0x2C2D2E2F\<rparr>\<rparr>"

definition header_sample :: MsgHeader where
  "header_sample =
     \<lparr>Leap = 0, Version = 4, Mode = 3, Stratum = 2, Poll = 6, Precision = 0xEC,
      RootDelay = \<lparr>Short.Seconds = 1, Short.Fraction = 2\<rparr>,
      RootDisp = \<lparr>Short.Seconds = 3, Short.Fraction = 4\<rparr>,
      RefID = [192, 168, 0, 1],
      RefTime = \<lparr>Timestamp.Seconds = 0x8BA8F3F0, Timestamp.Fraction = 0x11111111\<rparr>,
      Org = \<lparr>Timestamp.Seconds = 0x8BA8F3F1, Timestamp.Fraction = 0x22222222\<rparr>,
      Rec = \<lparr>Timestamp.Seconds = 0x8BA8F3F2, Timestamp.Fraction = 0x33333333\<rparr>,
      Xmt = \<lparr>Timestamp.Seconds = 0x8BA8F3F3, Timestamp.Fraction = 0x44444444\<rparr>,
      Dst = \<lparr>Timestamp.Seconds = 0, Timestamp.Fraction = 0\<rparr>\<rparr>"

section \<open>Bytes of a word\<close>

lemma and_255: "(x :: 'a::len word) AND 255 = take_bit 8 x"
proof -
  have "(255 :: 'a word) = mask 8"
    by (simp add: mask_eq_exp_minus_1)
  then show ?thesis
    by (simp only: take_bit_eq_mask)
qed

lemma join16:
  "push_bit 8 (ucast (ucast (drop_bit 8 s) :: byte)) OR ucast (ucast (s AND 0xff) :: byte)
     = (s :: uint16)"
  apply (simp only: and_255)
  apply (rule bit_word_eqI)
  apply (auto simp add: bit_simps)
  done

lemma join32:
  "push_bit 24 (ucast (ucast (drop_bit 24 s) :: byte))
     OR push_bit 16 (ucast (ucast (drop_bit 16 s AND 0xff) :: byte))
     OR push_bit 8 (ucast (ucast (drop_bit 8 s AND 0xff) :: byte))
     OR ucast (ucast (s AND 0xff) :: byte)
     = (s :: uint32)"
  apply (simp only: and_255)
  apply (rule bit_word_eqI)
  subgoal for n
    apply (cases "n < 8"; cases "n < 16"; cases "n < 24")
           apply (auto simp add: bit_simps)
    done
  done

section \<open>Reading and writing through a slice\<close>

lemma packShort_writes:
  assumes "4 \<le> slen b"
  shows "packShort st m b =
           Inr (m[off b := ucast (drop_bit 8 (Short.Seconds st)),
                  off b + 1 := ucast (Short.Seconds st AND 0xff),
                  off b + 2 := ucast (drop_bit 8 (Short.Fraction st)),
                  off b + 3 := ucast (Short.Fraction st AND 0xff)])"
  using assms by (simp add: packShort_def store_def)

lemma unpackShort_reads:
  assumes "4 \<le> slen b"
  shows "unpackShort m b =
           Inr \<lparr>Short.Seconds = push_bit 8 (ucast (m ! off b)) OR ucast (m ! (off b + 1)),
                Short.Fraction = push_bit 8 (ucast (m ! (off b + 2))) OR ucast (m ! (off b + 3))\<rparr>"
  using assms by (simp add: unpackShort_def index_def)

lemma packTimestamp_writes:
  assumes "8 \<le> slen b"
  shows "packTimestamp st m b =
           Inr (m[off b := ucast (drop_bit 24 (Timestamp.Seconds st)),
                  off b + 1 := ucast (drop_bit 16 (Timestamp.Seconds st) AND 0xff),
                  off b + 2 := ucast (drop_bit 8 (Timestamp.Seconds st) AND 0xff),
                  off b + 3 := ucast (Timestamp.Seconds st AND 0xff),
                  off b + 4 := ucast (drop_bit 24 (Timestamp.Fraction st)),
                  off b + 5 := ucast (drop_bit 16 (Timestamp.Fraction st) AND 0xff),
                  off b + 6 := ucast (drop_bit 8 (Timestamp.Fraction st) AND 0xff),
                  off b + 7 := ucast (Timestamp.Fraction st AND 0xff)])"
  using assms by (simp add: packTimestamp_def store_def)

lemma unpackTimestamp_reads:
  assumes "8 \<le> slen b"
  shows "unpackTimestamp m b =
           Inr \<lparr>Timestamp.Seconds =
                  push_bit 24 (ucast (m ! off b)) OR push_bit 16 (ucast (m ! (off b + 1)))
                    OR push_bit 8 (ucast (m ! (off b + 2))) OR ucast (m ! (off b + 3)),
                Timestamp.Fraction =
                  push_bit 24 (ucast (m ! (off b + 4))) OR push_bit 16 (ucast (m ! (off b + 5)))
                    OR push_bit 8 (ucast (m ! (off b + 6))) OR ucast (m ! (off b + 7))\<rparr>"
  using assms by (simp add: unpackTimestamp_def index_def)

section \<open>Round trips of the fixed-point formats\<close>

lemma Short_roundtrip:
  assumes "wf_slice m b" and "4 \<le> slen b"
  shows "\<exists>m'. packShort st m b = Inr m' \<and> length m' = length m \<and> unpackShort m' b = Inr st"
proof -
  from assms have len: "off b + 3 < length m"
    by (simp add: wf_slice_def)
  show ?thesis
    using len assms(2)
    by (simp add: packShort_writes unpackShort_reads join16)
qed

lemma Timestamp_roundtrip:
  assumes "wf_slice m b" and "8 \<le> slen b"
  shows "\<exists>m'. packTimestamp ts m b = Inr m' \<and> length m' = length m
           \<and> unpackTimestamp m' b = Inr ts"
proof -
  from assms have len: "off b + 7 < length m"
    by (simp add: wf_slice_def)
  show ?thesis
    using len assms(2)
    by (simp add: packTimestamp_writes unpackTimestamp_reads join32)
qed

section \<open>Reading and writing at an offset\<close>

lemma index_at:
  "0 \<le> i \<Longrightarrow> i < int (slen b) \<Longrightarrow> index m b i = Inr (byte_at m (off b) (nat i))"
  by (simp add: index_def byte_at_def)

lemma store_at:
  "0 \<le> i \<Longrightarrow> i < int (slen b) \<Longrightarrow> store m b i v = Inr (set_at m (off b) (nat i) v)"
  by (simp add: store_def set_at_def)

lemma reslice_in:
  "0 \<le> lo \<Longrightarrow> lo \<le> hi \<Longrightarrow> hi \<le> int (scap b) \<Longrightarrow>
   reslice b lo hi = Inr \<lparr>off = off b + nat lo, slen = nat (hi - lo), scap = scap b - nat lo\<rparr>"
  by (simp add: reslice_def)

lemma byte_at_shift: "byte_at m (k + a) j = byte_at m k (a + j)"
  by (simp add: byte_at_def add.assoc)

lemma set_at_shift: "set_at m (k + a) j v = set_at m k (a + j) v"
  by (simp add: set_at_def add.assoc)

lemma length_set_at: "length (set_at m k j v) = length m"
  by (simp add: set_at_def)

lemma byte_at_set_at:
  "k + j < length m \<Longrightarrow> byte_at (set_at m k j v) k j' = (if j = j' then v else byte_at m k j')"
  by (simp add: byte_at_def set_at_def)

lemma unpackShort_at: "4 \<le> slen b \<Longrightarrow> unpackShort m b = Inr (Short_at m (off b) 0)"
  by (simp add: unpackShort_def index_at Short_at_def be16_def numeral_2_eq_2)

lemma unpackTimestamp_at:
  "8 \<le> slen b \<Longrightarrow> unpackTimestamp m b = Inr (Timestamp_at m (off b) 0)"
  by (simp add: unpackTimestamp_def index_at Timestamp_at_def be32_def numeral_2_eq_2)

lemma Short_at_shift: "Short_at m (k + a) 0 = Short_at m k a"
  by (simp add: Short_at_def byte_at_shift)

lemma Timestamp_at_shift: "Timestamp_at m (k + a) 0 = Timestamp_at m k a"
  by (simp add: Timestamp_at_def byte_at_shift)

lemma packShort_at: "4 \<le> slen b \<Longrightarrow> packShort st m b = Inr (put_Short st m (off b) 0)"
  by (simp add: packShort_def store_at put_Short_def numeral_2_eq_2)

lemma put_Short_shift: "put_Short st m (k + a) 0 = put_Short st m k a"
  by (simp add: put_Short_def set_at_shift)

lemma length_put_Short: "length (put_Short st m k j) = length m"
  by (simp add: put_Short_def length_set_at)

lemma byte_at_put_Short:
  "k + j + 3 < length m \<Longrightarrow> j' < j \<Longrightarrow> byte_at (put_Short st m k j) k j' = byte_at m k j'"
  by (simp add: put_Short_def byte_at_set_at length_set_at)

lemma Short_at_put_Short:
  "k + j + 3 < length m \<Longrightarrow> Short_at (put_Short st m k j) k j = st"
  by (simp add: put_Short_def Short_at_def byte_at_set_at length_set_at be16_def join16)

lemma Short_at_put_Short_other:
  "k + j' + 3 < length m \<Longrightarrow> j + 3 < j' \<Longrightarrow>
   Short_at (put_Short st m k j') k j = Short_at m k j"
  by (simp add: put_Short_def Short_at_def byte_at_set_at length_set_at)

lemma MsgHeader_Unpack_reads:
  assumes "48 \<le> slen b" and "slen b \<le> scap b"
  shows "MsgHeader_Unpack mh m b =
    Inr (mh\<lparr>Leap := drop_bit 6 (byte_at m (off b) 0),
             Version := drop_bit 3 (byte_at m (off b) 0) AND 0x7,
             Mode := byte_at m (off b) 0 AND 0x7,
             Stratum := byte_at m (off b) 1,
             Poll := byte_at m (off b) 2,
             Precision := byte_at m (off b) 3,
             RootDelay := Short_at m (off b) 4,
             RootDisp := Short_at m (off b) 8,
             RefID := [byte_at m (off b) 12, byte_at m (off b) 13, byte_at m (off b) 14,
                       byte_at m (off b) 15],
             Org := Timestamp_at m (off b) 16,
             Rec := Timestamp_at m (off b) 24,
             Xmt := Timestamp_at m (off b) 32,
             Dst := Timestamp_at m (off b) 40\<rparr>, None)"
  using assms
  by (simp add: MsgHeader_Unpack_def index_at reslice_in unpackShort_at unpackTimestamp_at
      Short_at_shift Timestamp_at_shift)

lemma MsgHeader_Pack_writes:
  assumes "12 \<le> slen buf" and "slen buf \<le> scap buf"
  shows "MsgHeader_Pack mh m buf =
    Inr (put_Short (RootDisp mh) (put_Short (RootDelay mh)
          (set_at (set_at (set_at (set_at m (off buf) 0
              (push_bit 6 (Leap mh) OR push_bit 3 (Version mh) OR Mode mh))
            (off buf) 1 (Stratum mh))
            (off buf) 2 (Poll mh))
            (off buf) 3 (Precision mh))
          (off buf) 4) (off buf) 8, None, None)"
  using assms
  by (simp add: MsgHeader_Pack_def store_at reslice_in packShort_at put_Short_shift)

lemma and_7: "(x :: 'a::len word) AND 7 = take_bit 3 x"
proof -
  have "(7 :: 'a word) = mask 3"
    by (simp add: mask_eq_exp_minus_1)
  then show ?thesis
    by (simp only: take_bit_eq_mask)
qed

lemma and_3: "(x :: 'a::len word) AND 3 = take_bit 2 x"
proof -
  have "(3 :: 'a word) = mask 2"
    by (simp add: mask_eq_exp_minus_1)
  then show ?thesis
    by (simp only: take_bit_eq_mask)
qed

lemma flags_Mode: "(push_bit 6 L OR push_bit 3 V OR M) AND 7 = (M :: byte) AND 7"
  unfolding and_7 by (rule bit_word_eqI) (auto simp add: bit_simps)

lemma flags_Version:
  "drop_bit 3 (push_bit 6 L OR push_bit 3 V OR M) AND 7 = (V OR drop_bit 3 (M :: byte)) AND 7"
  unfolding and_7 by (rule bit_word_eqI) (auto simp add: bit_simps)

lemma flags_Leap:
  "drop_bit 6 (push_bit 6 L OR push_bit 3 V OR M)
     = (L OR drop_bit 3 V OR drop_bit 6 (M :: byte)) AND 3"
  unfolding and_3 
  apply (rule bit_word_eqI) 
  subgoal for n
    apply (cases "n < 2")
    apply (auto simp add: bit_simps dest: bit_imp_le_length)
    done
  done

lemma fits_3: "(x :: byte) \<le> 7 \<Longrightarrow> take_bit 3 x = x"
proof -
  assume "x \<le> 7"
  then have "x < 2 ^ 3"
    by (simp add: word_le_nat_alt word_less_nat_alt)
  then have "x AND mask 3 = x"
    by (rule less_mask_eq)
  then show ?thesis
    by (simp only: take_bit_eq_mask)
qed

lemma fits_2: "(x :: byte) \<le> 3 \<Longrightarrow> take_bit 2 x = x"
proof -
  assume "x \<le> 3"
  then have "x < 2 ^ 2"
    by (simp add: word_le_nat_alt word_less_nat_alt)
  then have "x AND mask 2 = x"
    by (rule less_mask_eq)
  then show ?thesis
    by (simp only: take_bit_eq_mask)
qed

lemma drop_take_3: "drop_bit 3 (take_bit 3 x) = (0 :: byte)"
  by (rule bit_word_eqI) (auto simp add: bit_simps)

lemma drop_6_take_3: "drop_bit 6 (take_bit 3 x) = (0 :: byte)"
  by (rule bit_word_eqI) (auto simp add: bit_simps)

lemma in_width:
  assumes "L \<le> 3" and "V \<le> 7" and "M \<le> (7 :: byte)"
  shows "(L OR drop_bit 3 V OR drop_bit 6 M) AND 3 = L"
    and "(V OR drop_bit 3 M) AND 7 = V"
    and "M AND 7 = M"
proof -
  have v: "drop_bit 3 V = 0"
    using drop_take_3 [of V] fits_3 [OF assms(2)] by simp
  have m: "drop_bit 3 M = 0" "drop_bit 6 M = 0"
    using drop_take_3 [of M] drop_6_take_3 [of M] fits_3 [OF assms(3)] by simp_all
  show "(L OR drop_bit 3 V OR drop_bit 6 M) AND 3 = L"
    by (simp add: v m and_3 fits_2 [OF assms(1)])
  show "(V OR drop_bit 3 M) AND 7 = V"
    by (simp add: m and_7 fits_3 [OF assms(2)])
  show "M AND 7 = M"
    by (simp add: and_7 fits_3 [OF assms(3)])
qed

lemma header_roundtrip:
  assumes "wf_slice m buf" and "48 \<le> slen buf"
  shows "\<exists>m'. MsgHeader_Pack mh m buf = Inr (m', None, None) \<and>
     (\<exists>mh'. MsgHeader_Unpack mh0 m' buf = Inr (mh', None)
        \<and> Stratum mh' = Stratum mh \<and> Poll mh' = Poll mh \<and> Precision mh' = Precision mh
        \<and> RootDelay mh' = RootDelay mh \<and> RootDisp mh' = RootDisp mh
        \<and> Mode mh' = Mode mh AND 7
        \<and> Version mh' = (Version mh OR drop_bit 3 (Mode mh)) AND 7
        \<and> Leap mh' = (Leap mh OR drop_bit 3 (Version mh) OR drop_bit 6 (Mode mh)) AND 3)"
proof -
  from assms have len: "off buf + 47 < length m" and cap: "slen buf \<le> scap buf"
    and l12: "12 \<le> slen buf"
    by (simp_all add: wf_slice_def)
  define b0 where "b0 = push_bit 6 (Leap mh) OR push_bit 3 (Version mh) OR Mode mh"
  define m' where "m' = put_Short (RootDisp mh) (put_Short (RootDelay mh)
          (set_at (set_at (set_at (set_at m (off buf) 0 b0)
            (off buf) 1 (Stratum mh))
            (off buf) 2 (Poll mh))
            (off buf) 3 (Precision mh))
          (off buf) 4) (off buf) 8"
  have P: "MsgHeader_Pack mh m buf = Inr (m', None, None)"
    unfolding m'_def b0_def by (rule MsgHeader_Pack_writes [OF l12 cap])
  have rd: "byte_at m' (off buf) 0 = b0" "byte_at m' (off buf) 1 = Stratum mh"
    "byte_at m' (off buf) 2 = Poll mh" "byte_at m' (off buf) 3 = Precision mh"
    "Short_at m' (off buf) 4 = RootDelay mh" "Short_at m' (off buf) 8 = RootDisp mh"
    unfolding m'_def using len
    by (simp_all add: byte_at_put_Short Short_at_put_Short Short_at_put_Short_other
        length_put_Short byte_at_set_at length_set_at)
  have "\<exists>mh'. MsgHeader_Unpack mh0 m' buf = Inr (mh', None)
        \<and> Stratum mh' = Stratum mh \<and> Poll mh' = Poll mh \<and> Precision mh' = Precision mh
        \<and> RootDelay mh' = RootDelay mh \<and> RootDisp mh' = RootDisp mh
        \<and> Mode mh' = b0 AND 7
        \<and> Version mh' = drop_bit 3 b0 AND 7
        \<and> Leap mh' = drop_bit 6 b0"
    using rd by (simp add: MsgHeader_Unpack_reads [OF assms(2) cap])
  then show ?thesis
    unfolding P b0_def flags_Mode flags_Version flags_Leap by simp
qed


section \<open>Signed arithmetic on 64 bits\<close>

lemma sdiv_giga: "(k::int) sdiv 1000000000 = sgn k * (\<bar>k\<bar> div 1000000000)"
  by (simp add: signed_divide_int_def)

lemma smod_giga: "(k::int) smod 1000000000 = sgn k * (\<bar>k\<bar> mod 1000000000)"
  by (simp add: signed_modulo_int_def)

lemma abs_sdiv_giga: "\<bar>(k::int) sdiv 1000000000\<bar> = \<bar>k\<bar> div 1000000000"
  by (cases "k = 0") (simp_all add: sdiv_giga abs_mult abs_sgn_eq)

lemma abs_smod_giga: "\<bar>(k::int) smod 1000000000\<bar> < 1000000000"
  by (cases "k = 0") (simp_all add: smod_giga abs_mult abs_sgn_eq)

lemma sint_word_of_int_64:
  "- (2 ^ 63) \<le> k \<Longrightarrow> k < 2 ^ 63 \<Longrightarrow> sint (word_of_int k :: int64) = k"
  by (simp add: sint_sbintrunc' signed_take_bit_int_eq_self)

lemma sint_bounds_64: "- (2 ^ 63) \<le> sint (a :: int64) \<and> sint a < 2 ^ 63"
  using sint_ge [of a] sint_lt [of a] by simp

lemma sint_sdiv64: "sint (sdiv64 a 1000000000) = sint a sdiv 1000000000"
proof -
  have "\<bar>sint a\<bar> \<le> 2 ^ 63"
    using sint_bounds_64 [of a] by (simp add: abs_le_iff)
  then have "\<bar>sint a\<bar> div 1000000000 \<le> 2 ^ 63 div 1000000000"
    by (rule zdiv_mono1) simp
  then have "\<bar>sint a\<bar> div 1000000000 < 2 ^ 63"
    by simp
  then have "\<bar>sint a sdiv 1000000000\<bar> < 2 ^ 63"
    by (simp only: abs_sdiv_giga)
  then show ?thesis
    by (simp add: sdiv64_def sint_word_of_int_64 abs_less_iff)
qed

lemma sint_smod64: "sint (smod64 a 1000000000) = sint a smod 1000000000"
proof -
  have "\<bar>sint a smod 1000000000\<bar> < 2 ^ 63"
    using abs_smod_giga [of "sint a"] by simp
  then show ?thesis
    by (simp add: smod64_def sint_word_of_int_64 abs_less_iff)
qed

lemma ucast_64_32: "(ucast (w :: int64) :: uint32) = word_of_int (sint w)"
  by (rule bit_word_eqI) (auto simp add: bit_simps min_def)

lemma lsb_word:
  assumes "0 \<le> l" and "l < 4"
  shows "(word_of_int l :: uint32) = take_bit 2 (word_of_int l)"
proof -
  have "take_bit 2 l = l"
    using assms by (simp add: take_bit_eq_mod)
  then show ?thesis
    by (metis take_bit_of_int)
qed

lemma keep_upper:
  "drop_bit 2 (push_bit 2 (drop_bit 2 F) OR take_bit 2 w) = drop_bit 2 (F :: uint32)"
  by (rule bit_word_eqI) (auto simp add: bit_simps dest: bit_imp_le_length)

lemma in_range_sint:
  assumes "\<bar>t sdiv 1000000000\<bar> \<le> 2 ^ 32 - 1"
  shows "sint (Sub_NTPEpoch t) = t"
proof -
  from assms have "\<bar>t\<bar> div 1000000000 \<le> 4294967295"
    by (simp add: abs_sdiv_giga)
  have "\<bar>t\<bar> < 4294967296 * 1000000000"
  proof (rule ccontr)
    assume "\<not> \<bar>t\<bar> < 4294967296 * 1000000000"
    then have "4294967296 * 1000000000 \<le> \<bar>t\<bar>"
      by simp
    then have "(4294967296 * 1000000000) div 1000000000 \<le> \<bar>t\<bar> div 1000000000"
      by (rule zdiv_mono1) simp
    with \<open>\<bar>t\<bar> div 1000000000 \<le> 4294967295\<close> show False
      by simp
  qed
  then have "- (2 ^ 63) \<le> t \<and> t < 2 ^ 63 \<and> t \<le> 2 ^ 63 - 1"
    by (simp add: abs_less_iff)
  then show ?thesis
    by (simp add: Sub_NTPEpoch_def sint_word_of_int_64)
qed

lemma sint_shift_frac:
  assumes "\<bar>sint f\<bar> < 1000000000"
  shows "sint (push_bit 32 (f :: int64)) = sint f * 2 ^ 32"
proof -
  have eq: "push_bit 32 f = word_of_int (sint f * 2 ^ 32)"
    by (simp add: push_bit_eq_mult)
  have b: "- (2 ^ 63) \<le> sint f * 2 ^ 32 \<and> sint f * 2 ^ 32 < 2 ^ 63"
    using assms by (simp add: abs_less_iff)
  show ?thesis
    unfolding eq by (rule sint_word_of_int_64) (use b in simp_all)
qed

lemma NewTimestampFromTime_value:
  assumes "\<bar>t sdiv 1000000000\<bar> \<le> 2 ^ 32 - 1"
  shows "NewTimestampFromTime t lsb =
    (\<lparr>Timestamp.Seconds = word_of_int (t sdiv 1000000000),
      Timestamp.Fraction =
        push_bit 2 (drop_bit 2 (word_of_int ((t smod 1000000000 * 2 ^ 32) sdiv 1000000000)))
          OR word_of_int lsb\<rparr>, None)"
proof -
  let ?ns = "Sub_NTPEpoch t"
  have ns: "sint ?ns = t"
    by (rule in_range_sint [OF assms])
  have s: "sint (sdiv64 ?ns 1000000000) = t sdiv 1000000000"
    by (simp add: sint_sdiv64 ns)
  have f: "sint (smod64 ?ns 1000000000) = t smod 1000000000"
    by (simp add: sint_smod64 ns)
  have "\<bar>sint (smod64 ?ns 1000000000)\<bar> < 1000000000"
    unfolding f by (rule abs_smod_giga)
  then have sh: "sint (push_bit 32 (smod64 ?ns 1000000000)) = t smod 1000000000 * 2 ^ 32"
    by (simp add: sint_shift_frac f)
  have q: "sint (sdiv64 (push_bit 32 (smod64 ?ns 1000000000)) 1000000000)
             = (t smod 1000000000 * 2 ^ 32) sdiv 1000000000"
    by (simp only: sint_sdiv64 sh)
  have ok: "\<not> (0xffffffff <s sdiv64 ?ns 1000000000 \<or> sdiv64 ?ns 1000000000 <s - 0xffffffff)"
    using assms by (simp add: word_sless_alt s abs_le_iff not_less)
  show ?thesis
    unfolding NewTimestampFromTime_def Let_def
    using ok by (simp add: ucast_64_32 s q)
qed


section \<open>The range of Float\<close>

lemma shift_out: "64 \<le> n \<Longrightarrow> push_bit n (1 :: uint) = 0"
  by (rule bit_word_eqI) (auto simp add: bit_simps)

lemma float64_of_uint_below:
  "float64_of_uint w \<noteq> Finite (2 ^ 64)"
proof -
  have "unat w < 2 ^ 64"
    using unsigned_less [of w, where ?'a = nat] by simp
  then have "real (unat w) < real (2 ^ 64)"
    by (simp only: of_nat_less_iff)
  then have "real (unat w) < 2 ^ 64"
    by simp
  then show ?thesis
    by (simp add: float64_of_uint_def)
qed

lemma one_over_below: "one_over (float64_of_uint w) \<noteq> Finite (2 ^ 64)"
proof (cases "unat w = 0")
  case True
  then show ?thesis
    by (simp add: one_over_def float64_of_uint_def)
next
  case False
  then have "1 \<le> unat w"
    by simp
  then have "real 1 \<le> real (unat w)"
    by (simp only: of_nat_le_iff)
  then have "1 \<le> real (unat w)"
    by simp
  then have "1 / real (unat w) \<le> 1"
    by simp
  then have "1 / real (unat w) \<noteq> 2 ^ 64"
    by simp
  with False show ?thesis
    by (simp add: one_over_def float64_of_uint_def)
qed

lemma Float_never_2_64: "Float e \<noteq> Finite (2 ^ 64)"
  using float64_of_uint_below one_over_below by (simp add: Float_def)

section \<open>Unpacking a message\<close>

lemma MsgHeader_Unpack_Version:
  assumes "48 \<le> slen b" and "slen b \<le> scap b"
  shows "\<exists>h. MsgHeader_Unpack mh m b = Inr (h, None)
           \<and> Version h = drop_bit 3 (m ! off b) AND 7"
  by (simp add: MsgHeader_Unpack_reads [OF assms] byte_at_def)

text \<open>
  Once the guard on \<open>remain\<close> is passed, the loop over \<open>Dgst\<close> ends at \<open>i = 0\<close> with
  the read \<open>b[end-1]\<close>, and \<open>end\<close> is \<open>len(b) + 1\<close>: the index is \<open>len(b)\<close>.
\<close>

lemma Dgst_loop_last:
  "Dgst_loop m b (int (slen b) + 1) n d = Inl IndexOutOfRange"
proof (induction n arbitrary: d)
  case 0
  show ?case
    by (simp add: index_def)
next
  case (Suc n)
  show ?case
    by (cases "index m b (int (slen b) + 1 - int (Suc n) - 1)")
      (auto simp add: Suc.IH index_def split: if_splits)
qed

lemma Msg_Unpack_trailer_panics:
  assumes "wf_slice m b" and "72 \<le> slen b" and "4 \<le> drop_bit 3 (m ! off b) AND 7"
    and "length (Dgst msg) = 16"
  shows "Msg_Unpack msg m b = Inl IndexOutOfRange"
proof -
  from assms have l: "48 \<le> slen b" and c: "slen b \<le> scap b"
    by (simp_all add: wf_slice_def)
  from MsgHeader_Unpack_Version [OF l c, of "Header msg" m]
  obtain h where U: "MsgHeader_Unpack (Header msg) m b = Inr (h, None)"
    and V: "\<not> Version h < 4"
    using assms(3) by (auto simp add: not_less)
  show ?thesis
    using assms(2,4) by (simp add: Msg_Unpack_def U V HeaderSize_def Dgst_loop_last Let_def)
qed

section \<open>The claims\<close>

text \<open>
  C1. A 68-byte Version-4 buffer (the header and a 20-byte trailer, no extension field)
  does not unpack: \<open>remain\<close> is below \<open>keyid + dgst + min(extfield)\<close>, and
  \<open>Msg.Unpack\<close> returns "not enough data following header" with \<open>KeyID\<close>, \<open>Dgst\<close> and
  the extension fields untouched. On the sample buffer the error carries 21.
\<close>

theorem Msg_Unpack_68_counterexample:
  "Msg_Unpack zero_Msg wire68 (whole wire68)
     = Inr (\<lparr>Header = header48, ExtensionFields = [], KeyID = 0, Dgst = replicate 16 0\<rparr>,
            Some (NotEnoughData 21))"
  by code_simp

text \<open>
  C1, as the code has it. For every Version-4 buffer of exactly 68 bytes, \<open>Msg.Unpack\<close>
  decodes the header (its \<open>Header\<close> becomes what \<open>MsgHeader.Unpack\<close> reads from the
  buffer, with Version 4) and returns the error "not enough data following header"; the
  message is otherwise as it was, so a fresh one keeps a zero \<open>KeyID\<close>, a zero \<open>Dgst\<close>
  and no extension field.
\<close>

theorem Msg_Unpack_68_not_enough_data:
  assumes "wf_slice m b" and "slen b = 68" and "drop_bit 3 (m ! off b) AND 7 = 4"
    and "length (Dgst msg) = 16"
  shows "\<exists>h n. MsgHeader_Unpack (Header msg) m b = Inr (h, None) \<and> Version h = 4
           \<and> Msg_Unpack msg m b = Inr (msg\<lparr>Header := h\<rparr>, Some (NotEnoughData n))"
proof -
  from assms have l: "48 \<le> slen b" and c: "slen b \<le> scap b"
    by (simp_all add: wf_slice_def)
  from MsgHeader_Unpack_Version [OF l c, of "Header msg" m]
  obtain h where U: "MsgHeader_Unpack (Header msg) m b = Inr (h, None)"
    and V: "Version h = 4"
    using assms(3) by auto
  have "Msg_Unpack msg m b = Inr (msg\<lparr>Header := h\<rparr>, Some (NotEnoughData 21))"
    by (simp add: Msg_Unpack_def U V assms(2,4) HeaderSize_def)
  with U V show ?thesis
    by blast
qed

theorem Msg_Unpack_68_not_enough_data_witness:
  "wf_slice wire68 (whole wire68) \<and> slen (whole wire68) = 68
   \<and> drop_bit 3 (wire68 ! off (whole wire68)) AND 7 = 4 \<and> length (Dgst zero_Msg) = 16
   \<and> (\<exists>h n. MsgHeader_Unpack (Header zero_Msg) wire68 (whole wire68) = Inr (h, None)
          \<and> Version h = 4
          \<and> Msg_Unpack zero_Msg wire68 (whole wire68)
              = Inr (zero_Msg\<lparr>Header := h\<rparr>, Some (NotEnoughData n)))"
proof -
  have a: "wf_slice wire68 (whole wire68)" and b: "slen (whole wire68) = 68"
    and c: "drop_bit 3 (wire68 ! off (whole wire68)) AND 7 = 4"
    and d: "length (Dgst zero_Msg) = 16"
    by code_simp+
  from Msg_Unpack_68_not_enough_data [OF a b c d] a b c d show ?thesis
    by blast
qed

text \<open>
  C2. \<open>MsgHeader.Unpack\<close> on the sample header, from a zero receiver: \<open>RefTime\<close> is not
  assigned (it stays zero), \<open>Org\<close> is read from bytes 16-23, \<open>Rec\<close> from bytes 24-31,
  \<open>Xmt\<close> from bytes 32-39 and \<open>Dst\<close> from bytes 40-47.
\<close>

theorem MsgHeader_Unpack_timestamps_shifted:
  "MsgHeader_Unpack zero_MsgHeader wire48 (whole wire48) = Inr (header48, None)
   \<and> RefTime header48 = zero_Timestamp
   \<and> Org header48 = \<lparr>Timestamp.Seconds = 0x10111213, Timestamp.Fraction = 0x14151617\<rparr>
   \<and> Dst header48 = \<lparr>Timestamp.Seconds = 0x28292A2B, Timestamp.Fraction = 0x2C2D2E2F\<rparr>"
  by code_simp

text \<open>
  C3. \<open>unpackExtensionFields\<close> on the region \<open>01 03 AA BB CC 00\<close>: after the first
  record (type 1, value \<open>AA BB CC\<close>) the cursor is at 1, not at 6, since only the
  padding \<open>4 - l % 4\<close> is added to it. The second round reads type 3 and length
  \<open>0xAA\<close> at the cursor and slices \<open>b[3:173]\<close>: a panic when the region's capacity is
  6, and three fields in all when the capacity is 209 or more.
\<close>

theorem unpackExtensionFields_cursor:
  "unpackExtensionFields_loop region6 (whole region6) 0 []
     = unpackExtensionFields_loop region6 (whole region6) 1
         [\<lparr>Type = 1, Value = \<lparr>off = 2, slen = 3, scap = 4\<rparr>\<rparr>]
   \<and> bytes region6 \<lparr>off = 2, slen = 3, scap = 4\<rparr> = [0xAA, 0xBB, 0xCC]
   \<and> unpackExtensionFields zero_Msg region6 (whole region6) = Inl SliceBoundsOutOfRange
   \<and> unpackExtensionFields zero_Msg (region6 @ replicate 203 0)
         \<lparr>off = 0, slen = 6, scap = 209\<rparr>
       = Inr (zero_Msg\<lparr>ExtensionFields :=
                [\<lparr>Type = 0x01, Value = \<lparr>off = 2, slen = 3, scap = 207\<rparr>\<rparr>,
                 \<lparr>Type = 0x03, Value = \<lparr>off = 3, slen = 170, scap = 206\<rparr>\<rparr>,
                 \<lparr>Type = 0xBB, Value = \<lparr>off = 5, slen = 204, scap = 204\<rparr>\<rparr>]\<rparr>, None)"
  by code_simp

text \<open>
  C4. \<open>MsgHeader.Pack\<close> of a header with a reference id and four timestamps, into 48
  bytes that all hold \<open>0xEE\<close>: the first 12 bytes are written, and bytes 12-47 (the
  reference id and the timestamps of the wire layout) are left as they were.
\<close>

theorem MsgHeader_Pack_writes_12_bytes:
  "MsgHeader_Pack header_sample (replicate 48 0xEE) (whole (replicate 48 0xEE))
     = Inr ([0x23, 2, 6, 0xEC, 0, 1, 0, 2, 0, 3, 0, 4] @ replicate 36 0xEE, None, None)"
  by code_simp

text \<open>
  C5. For every buffer of exactly 48 bytes whose header decodes to Version 4,
  \<open>Msg.Unpack\<close> returns no error and changes nothing but the header: the extension
  fields, \<open>KeyID\<close> and \<open>Dgst\<close> are as before, hence empty and zero in a fresh message.
\<close>

theorem Msg_Unpack_48_header_only:
  assumes "wf_slice m b" and "slen b = 48" and "drop_bit 3 (m ! off b) AND 7 = 4"
  shows "(\<exists>h. Version h = 4 \<and> Msg_Unpack msg m b = Inr (msg\<lparr>Header := h\<rparr>, None))
       \<and> (\<exists>h. Version h = 4
             \<and> Msg_Unpack zero_Msg m b
                 = Inr (\<lparr>Header = h, ExtensionFields = [], KeyID = 0, Dgst = replicate 16 0\<rparr>,
                        None))"
proof -
  from assms have l: "48 \<le> slen b" and c: "slen b \<le> scap b"
    by (simp_all add: wf_slice_def)
  have only_header: "\<exists>h. Version h = 4 \<and> Msg_Unpack x m b = Inr (x\<lparr>Header := h\<rparr>, None)"
    for x
  proof -
    from MsgHeader_Unpack_Version [OF l c, of "Header x" m]
    obtain h where U: "MsgHeader_Unpack (Header x) m b = Inr (h, None)"
      and V: "Version h = 4"
      using assms(3) by auto
    have "Msg_Unpack x m b = Inr (x\<lparr>Header := h\<rparr>, None)"
      by (simp add: Msg_Unpack_def U V assms(2) HeaderSize_def)
    with V show ?thesis
      by blast
  qed
  from only_header [of msg] only_header [of zero_Msg] show ?thesis
    by (simp add: zero_Msg_def)
qed

theorem Msg_Unpack_48_header_only_witness:
  "wf_slice wire48 (whole wire48) \<and> slen (whole wire48) = 48
   \<and> drop_bit 3 (wire48 ! off (whole wire48)) AND 7 = 4
   \<and> (\<exists>h. Version h = 4
          \<and> Msg_Unpack zero_Msg wire48 (whole wire48)
              = Inr (\<lparr>Header = h, ExtensionFields = [], KeyID = 0, Dgst = replicate 16 0\<rparr>,
                     None))"
proof -
  have a: "wf_slice wire48 (whole wire48)" and b: "slen (whole wire48) = 48"
    and c: "drop_bit 3 (wire48 ! off (whole wire48)) AND 7 = 4"
    by code_simp+
  from Msg_Unpack_48_header_only [OF a b c, of zero_Msg] a b c show ?thesis
    by blast
qed

text \<open>
  C6. For every \<open>Short\<close> and every \<open>Timestamp\<close>, packing into a slice that is long enough
  (4 bytes, 8 bytes) succeeds, and unpacking what was written gives the value back:
  the big-endian pair is a lossless round trip over all \<open>2^32\<close> and \<open>2^64\<close> values.
\<close>

theorem pack_unpack_roundtrip:
  assumes "wf_slice m b" and "4 \<le> slen b" and "wf_slice m' b'" and "8 \<le> slen b'"
  shows "(\<exists>m1. packShort st m b = Inr m1 \<and> unpackShort m1 b = Inr st)
       \<and> (\<exists>m2. packTimestamp ts m' b' = Inr m2 \<and> unpackTimestamp m2 b' = Inr ts)"
  using Short_roundtrip [OF assms(1,2), of st] Timestamp_roundtrip [OF assms(3,4), of ts]
  by blast

theorem pack_unpack_roundtrip_witness:
  "wf_slice [0, 0, 0, 0] (whole [0, 0, 0, 0]) \<and> 4 \<le> slen (whole [0, 0, 0, 0 :: byte])
   \<and> wf_slice [0, 0, 0, 0, 0, 0, 0, 0] (whole [0, 0, 0, 0, 0, 0, 0, 0])
   \<and> 8 \<le> slen (whole [0, 0, 0, 0, 0, 0, 0, 0 :: byte])
   \<and> (\<exists>m1. packShort \<lparr>Short.Seconds = 0x1234, Short.Fraction = 0xABCD\<rparr> [0, 0, 0, 0]
              (whole [0, 0, 0, 0]) = Inr m1
          \<and> unpackShort m1 (whole [0, 0, 0, 0])
              = Inr \<lparr>Short.Seconds = 0x1234, Short.Fraction = 0xABCD\<rparr>)
   \<and> (\<exists>m2. packTimestamp \<lparr>Timestamp.Seconds = 0x8BA8F3F0, Timestamp.Fraction = 4\<rparr>
              [0, 0, 0, 0, 0, 0, 0, 0] (whole [0, 0, 0, 0, 0, 0, 0, 0]) = Inr m2
          \<and> unpackTimestamp m2 (whole [0, 0, 0, 0, 0, 0, 0, 0])
              = Inr \<lparr>Timestamp.Seconds = 0x8BA8F3F0, Timestamp.Fraction = 4\<rparr>)"
proof -
  have a: "wf_slice [0, 0, 0, 0] (whole [0, 0, 0, 0])"
    and b: "4 \<le> slen (whole [0, 0, 0, 0 :: byte])"
    and c: "wf_slice [0, 0, 0, 0, 0, 0, 0, 0] (whole [0, 0, 0, 0, 0, 0, 0, 0])"
    and d: "8 \<le> slen (whole [0, 0, 0, 0, 0, 0, 0, 0 :: byte])"
    by (simp_all add: wf_slice_def whole_def)
  show ?thesis
    using a b c d
      pack_unpack_roundtrip [OF a b c d,
        of "\<lparr>Short.Seconds = 0x1234, Short.Fraction = 0xABCD\<rparr>"
           "\<lparr>Timestamp.Seconds = 0x8BA8F3F0, Timestamp.Fraction = 4\<rparr>"]
    by blast
qed

text \<open>
  C7. \<open>NewShortFromDuration\<close> returns an error exactly when the whole seconds of the
  duration, truncated towards zero, exceed 65535 in magnitude; it does so at +65536 s and
  at -65536 s.
\<close>

theorem NewShortFromDuration_overflow_iff:
  "(snd (NewShortFromDuration d) \<noteq> None) = (65535 < \<bar>sint d\<bar> div 1000000000)
   \<and> snd (NewShortFromDuration (65536 * 1000000000)) = Some TimestampOverflow
   \<and> snd (NewShortFromDuration (- 65536 * 1000000000)) = Some TimestampOverflow"
proof -
  have "(0xffff <s sdiv64 d 1000000000 \<or> sdiv64 d 1000000000 <s - 0xffff)
        = (65535 < \<bar>sint d sdiv 1000000000\<bar>)"
    by (simp add: word_sless_alt sint_sdiv64) linarith
  then have "(snd (NewShortFromDuration d) \<noteq> None) = (65535 < \<bar>sint d\<bar> div 1000000000)"
    by (simp add: NewShortFromDuration_def Let_def abs_sdiv_giga)
  moreover have "snd (NewShortFromDuration (65536 * 1000000000)) = Some TimestampOverflow"
    by code_simp
  moreover have "snd (NewShortFromDuration (- 65536 * 1000000000)) = Some TimestampOverflow"
    by code_simp
  ultimately show ?thesis
    by blast
qed

text \<open>
  C8. For every time whose whole seconds from the NTP epoch fit in \<open>\<plusminus>(2^32 - 1)\<close>, and
  any two draws \<open>l1\<close>, \<open>l2\<close> of the random source, \<open>NewTimestampFromTime\<close> succeeds both
  times with the same \<open>Seconds\<close> and the same upper 30 bits of \<open>Fraction\<close>, and those
  bits are the upper 30 bits of the truncated quotient \<open>ns_remainder * 2^32 / 1e9\<close>.
\<close>

theorem NewTimestampFromTime_upper_bits:
  assumes "\<bar>t sdiv 1000000000\<bar> \<le> 2 ^ 32 - 1"
    and "0 \<le> l1" and "l1 < 4" and "0 \<le> l2" and "l2 < 4"
  shows "snd (NewTimestampFromTime t l1) = None \<and> snd (NewTimestampFromTime t l2) = None
     \<and> Timestamp.Seconds (fst (NewTimestampFromTime t l1))
          = Timestamp.Seconds (fst (NewTimestampFromTime t l2))
     \<and> drop_bit 2 (Timestamp.Fraction (fst (NewTimestampFromTime t l1)))
          = drop_bit 2 (Timestamp.Fraction (fst (NewTimestampFromTime t l2)))
     \<and> drop_bit 2 (Timestamp.Fraction (fst (NewTimestampFromTime t l1)))
          = drop_bit 2 (word_of_int ((t smod 1000000000 * 2 ^ 32) sdiv 1000000000) :: uint32)"
proof -
  have up: "drop_bit 2 (push_bit 2 (drop_bit 2 F) OR word_of_int l) = drop_bit 2 (F :: uint32)"
    if "0 \<le> l" and "l < 4" for F l
    using keep_upper [of F "word_of_int l"] lsb_word [OF that] by simp
  show ?thesis
    by (simp only: NewTimestampFromTime_value [OF assms(1)] fst_conv snd_conv
        Timestamp.select_convs up [OF assms(2,3)] up [OF assms(4,5)] simp_thms)
qed

theorem NewTimestampFromTime_upper_bits_witness:
  "\<bar>(2343049200000000001 :: int) sdiv 1000000000\<bar> \<le> 2 ^ 32 - 1
   \<and> (0 :: int) \<le> 0 \<and> (0 :: int) < 4 \<and> (0 :: int) \<le> 3 \<and> (3 :: int) < 4
   \<and> snd (NewTimestampFromTime 2343049200000000001 0) = None
   \<and> snd (NewTimestampFromTime 2343049200000000001 3) = None
   \<and> Timestamp.Seconds (fst (NewTimestampFromTime 2343049200000000001 0))
        = Timestamp.Seconds (fst (NewTimestampFromTime 2343049200000000001 3))
   \<and> drop_bit 2 (Timestamp.Fraction (fst (NewTimestampFromTime 2343049200000000001 0)))
        = drop_bit 2 (Timestamp.Fraction (fst (NewTimestampFromTime 2343049200000000001 3)))"
proof -
  have a: "\<bar>(2343049200000000001 :: int) sdiv 1000000000\<bar> \<le> 2 ^ 32 - 1"
    by (simp add: signed_divide_int_def)
  have b: "(0 :: int) \<le> 0" "(0 :: int) < 4" "(0 :: int) \<le> 3" "(3 :: int) < 4"
    by simp_all
  from NewTimestampFromTime_upper_bits [OF a b] a show ?thesis
    by simp
qed

text \<open>
  C9. \<open>Float\<close> on exponents of 64 and more shifts the 1 out of the \<open>uint\<close> and returns 0,
  and on exponents of -64 and less divides by that 0 and returns \<open>+Inf\<close>; no exponent at
  all is mapped to \<open>2^64\<close>, so no \<open>FloatToExponent\<close> can make the round trip at that value.
\<close>

theorem Float_shifts_out:
  "Float 64 = Finite 0 \<and> Float 127 = Finite 0 \<and> Float (- 64) = PosInf
   \<and> Float 63 = Finite (2 ^ 63) \<and> Float (- 3) = Finite (1 / 8)
   \<and> Float e \<noteq> Finite (2 ^ 64)"
proof -
  have "Float 64 = Finite 0" "Float 127 = Finite 0"
    by (simp_all add: Float_def float64_of_uint_def word_sless_alt shift_out)
  moreover have "Float (- 64) = PosInf"
    by (simp add: Float_def float64_of_uint_def word_sless_alt one_over_def)
  moreover have "Float 63 = Finite (2 ^ 63)" "Float (- 3) = Finite (1 / 8)"
    by (simp_all add: Float_def float64_of_uint_def word_sless_alt one_over_def)
  ultimately show ?thesis
    using Float_never_2_64 [of e] by blast
qed

text \<open>
  C10. A \<open>Leap\<close> beyond its two bits leaves no trace in byte 0: a header with Leap 4,
  Version 4 and Mode 3 packs to the same bytes as one with Leap 0, and unpacks as Leap 0,
  Version 4, Mode 3. The excess bit is shifted out of the byte, not merged into a
  neighbouring field.
\<close>

theorem MsgHeader_Pack_Leap_excess_dropped:
  "MsgHeader_Pack (zero_MsgHeader\<lparr>Leap := 4, Version := 4, Mode := 3\<rparr>) (replicate 48 0)
      (whole (replicate 48 0)) = Inr (0x23 # replicate 47 0, None, None)
   \<and> MsgHeader_Pack (zero_MsgHeader\<lparr>Leap := 0, Version := 4, Mode := 3\<rparr>) (replicate 48 0)
      (whole (replicate 48 0)) = Inr (0x23 # replicate 47 0, None, None)
   \<and> MsgHeader_Unpack zero_MsgHeader (0x23 # replicate 47 0) (whole (0x23 # replicate 47 0))
      = Inr (zero_MsgHeader\<lparr>Leap := 0, Version := 4, Mode := 3\<rparr>, None)"
  by code_simp

text \<open>
  C10, as the code has it. Packing any header into a buffer of at least 48 bytes
  succeeds with no error, and unpacking that buffer recovers \<open>Stratum\<close>, \<open>Poll\<close>,
  \<open>Precision\<close>, \<open>RootDelay\<close> and \<open>RootDisp\<close> exactly. Byte 0 is
  \<open>Leap<<6 | Version<<3 | Mode\<close> in 8 bits: the bits of \<open>Mode\<close> above its three are
  or-ed into \<open>Version\<close> and \<open>Leap\<close>, those of \<open>Version\<close> into \<open>Leap\<close>, and what is
  shifted beyond bit 7 is lost. With \<open>Leap \<le> 3\<close>, \<open>Version \<le> 7\<close> and \<open>Mode \<le> 7\<close> the three
  fields are recovered exactly.
\<close>

theorem MsgHeader_Pack_Unpack_flags:
  assumes "wf_slice m buf" and "48 \<le> slen buf"
  shows "\<exists>m' mh'. MsgHeader_Pack mh m buf = Inr (m', None, None)
        \<and> MsgHeader_Unpack mh0 m' buf = Inr (mh', None)
        \<and> Stratum mh' = Stratum mh \<and> Poll mh' = Poll mh \<and> Precision mh' = Precision mh
        \<and> RootDelay mh' = RootDelay mh \<and> RootDisp mh' = RootDisp mh
        \<and> Mode mh' = Mode mh AND 7
        \<and> Version mh' = (Version mh OR drop_bit 3 (Mode mh)) AND 7
        \<and> Leap mh' = (Leap mh OR drop_bit 3 (Version mh) OR drop_bit 6 (Mode mh)) AND 3
        \<and> (Leap mh \<le> 3 \<and> Version mh \<le> 7 \<and> Mode mh \<le> 7
             \<longrightarrow> Leap mh' = Leap mh \<and> Version mh' = Version mh \<and> Mode mh' = Mode mh)"
proof -
  from header_roundtrip [OF assms, of mh mh0]
  obtain m' mh' where r: "MsgHeader_Pack mh m buf = Inr (m', None, None)"
    "MsgHeader_Unpack mh0 m' buf = Inr (mh', None)"
    "Stratum mh' = Stratum mh" "Poll mh' = Poll mh" "Precision mh' = Precision mh"
    "RootDelay mh' = RootDelay mh" "RootDisp mh' = RootDisp mh"
    and f: "Mode mh' = Mode mh AND 7"
    "Version mh' = (Version mh OR drop_bit 3 (Mode mh)) AND 7"
    "Leap mh' = (Leap mh OR drop_bit 3 (Version mh) OR drop_bit 6 (Mode mh)) AND 3"
    by blast
  have "Leap mh' = Leap mh \<and> Version mh' = Version mh \<and> Mode mh' = Mode mh"
    if "Leap mh \<le> 3 \<and> Version mh \<le> 7 \<and> Mode mh \<le> 7"
  proof -
    from that have a: "Leap mh \<le> 3" and b: "Version mh \<le> 7" and c: "Mode mh \<le> 7"
      by simp_all
    from in_width [OF a b c] f show ?thesis
      by simp
  qed
  with r f show ?thesis
    by blast
qed

theorem MsgHeader_Pack_Unpack_flags_witness:
  "wf_slice (replicate 48 0) (whole (replicate 48 0)) \<and> 48 \<le> slen (whole (replicate 48 0))
   \<and> (\<exists>m' mh'. MsgHeader_Pack header_sample (replicate 48 0) (whole (replicate 48 0))
                  = Inr (m', None, None)
        \<and> MsgHeader_Unpack zero_MsgHeader m' (whole (replicate 48 0)) = Inr (mh', None)
        \<and> Leap mh' = 0 \<and> Version mh' = 4 \<and> Mode mh' = 3 \<and> Stratum mh' = 2
        \<and> RootDelay mh' = \<lparr>Short.Seconds = 1, Short.Fraction = 2\<rparr>)"
proof -
  have a: "wf_slice (replicate 48 0) (whole (replicate 48 0))"
    and b: "48 \<le> slen (whole (replicate 48 0))"
    by (simp_all add: wf_slice_def whole_def)
  have c: "Leap header_sample \<le> 3 \<and> Version header_sample \<le> 7 \<and> Mode header_sample \<le> 7"
    by (simp add: header_sample_def)
  from MsgHeader_Pack_Unpack_flags [OF a b, of header_sample zero_MsgHeader] c
  obtain m' mh' where
    "MsgHeader_Pack header_sample (replicate 48 0) (whole (replicate 48 0)) = Inr (m', None, None)"
    "MsgHeader_Unpack zero_MsgHeader m' (whole (replicate 48 0)) = Inr (mh', None)"
    "Leap mh' = Leap header_sample" "Version mh' = Version header_sample"
    "Mode mh' = Mode header_sample" "Stratum mh' = Stratum header_sample"
    "RootDelay mh' = RootDelay header_sample"
    by blast
  with a b show ?thesis
    by (auto simp add: header_sample_def)
qed

end
